theory Spec2Isabelle
  imports Main "HOL-Library.Word" "HOL-Library.List_Lexorder" "HOL-Library.Sublist"
begin

section \<open>JavaScript strings\<close>

text \<open>
  A JavaScript string is a sequence of 16-bit UTF-16 code units: \<open>length\<close> counts code
  units, \<open>===\<close> compares them one by one, and the relational operators (which the default
  comparison of \<open>Array.prototype.sort\<close> uses on strings) order strings lexicographically
  by unsigned code unit, a proper prefix first. That order is the one the list instance of
  \<open>linorder\<close> gives over the unsigned order of words.
\<close>

type_synonym jschar = "16 word"
type_synonym jsstring = "jschar list"

text \<open>An ASCII literal of the source, as code units.\<close>

definition str :: "string \<Rightarrow> jsstring" where
  "str s = map (\<lambda>c. of_nat (of_char c)) s"

text \<open>
  \<open>String.prototype.trim\<close> strips the code points of WhiteSpace and LineTerminator from
  both ends: TAB, VT, FF, SP, NBSP, ZWNBSP, the other space separators (category Zs), and
  LF, CR, LS, PS. All of them are single code units.
\<close>

definition isWhiteSpace :: "jschar \<Rightarrow> bool" where
  "isWhiteSpace c =
     (c = 0x0009 \<or> c = 0x000A \<or> c = 0x000B \<or> c = 0x000C \<or> c = 0x000D \<or> c = 0x0020 \<or>
      c = 0x00A0 \<or> c = 0x1680 \<or> (0x2000 \<le> c \<and> c \<le> 0x200A) \<or> c = 0x2028 \<or>
      c = 0x2029 \<or> c = 0x202F \<or> c = 0x205F \<or> c = 0x3000 \<or> c = 0xFEFF)"

definition trim :: "jsstring \<Rightarrow> jsstring" where
  "trim s = rev (dropWhile isWhiteSpace (rev (dropWhile isWhiteSpace s)))"

text \<open>
  \<open>s.includes(q)\<close>: whether \<open>q\<close> occurs in \<open>s\<close> at some position, scanning the positions
  from the left.
\<close>

fun str_includes :: "'a list \<Rightarrow> 'a list \<Rightarrow> bool" where
  "str_includes [] q = (q = [])"
| "str_includes (c # s) q = (prefix q (c # s) \<or> str_includes s q)"

text \<open>
  \<open>String.prototype.toLowerCase\<close> is the host's Unicode case mapping. The functions below
  take it as the parameter \<open>toLowerCase\<close>; nothing proved here depends on what it maps.
  On strings of ASCII code units it is the function \<open>toLowerCase_ascii\<close>, which the
  concrete examples use.
\<close>

definition toLowerCase_ascii :: "jsstring \<Rightarrow> jsstring" where
  "toLowerCase_ascii s = map (\<lambda>c. if 0x41 \<le> c \<and> c \<le> 0x5A then c + 0x20 else c) s"

section \<open>Sets in insertion order\<close>

text \<open>
  \<open>new Set(xs)\<close> adds the elements of \<open>xs\<close> from the left; \<open>add\<close> appends a value that
  the set does not hold yet and leaves the set alone otherwise. Spreading the set
  (\<open>[...new Set(xs)]\<close>) lists it in insertion order, so a set is modelled by that list.
\<close>

definition Set_add :: "'a \<Rightarrow> 'a list \<Rightarrow> 'a list" where
  "Set_add x s = (if x \<in> set s then s else s @ [x])"

definition new_Set :: "'a list \<Rightarrow> 'a list" where
  "new_Set xs = fold Set_add xs []"

section \<open>The catalog\<close>

record entry =
  brand :: jsstring
  type :: jsstring
  code :: jsstring
  issue :: jsstring
  fix_summary :: jsstring
  parts_needed :: "jsstring list"
  affiliate_link :: jsstring
  video_guide :: jsstring

section \<open>The page: three dropdowns and the solution card\<close>

text \<open>\<open>new Option(text, value)\<close>.\<close>

record option_el =
  opt_text :: jsstring
  opt_value :: jsstring

text \<open>
  A single-selection dropdown. \<open>selectedIndex\<close> is \<open>None\<close> where the DOM reports \<open>-1\<close>.
\<close>

record select_el =
  options :: "option_el list"
  selectedIndex :: "nat option"
  disabled :: bool

fun firstIndex :: "('a \<Rightarrow> bool) \<Rightarrow> 'a list \<Rightarrow> nat option" where
  "firstIndex P [] = None"
| "firstIndex P (x # xs) = (if P x then Some 0 else map_option Suc (firstIndex P xs))"

text \<open>Reading \<open>select.value\<close>: the value of the selected option, the empty string if none.\<close>

definition select_value :: "select_el \<Rightarrow> jsstring" where
  "select_value s =
     (case selectedIndex s of
        None \<Rightarrow> []
      | Some i \<Rightarrow> if i < length (options s) then opt_value (options s ! i) else [])"

text \<open>
  Assigning \<open>select.value = v\<close>: the first option whose value is \<open>v\<close> becomes the selected
  one; with no such option nothing is selected.
\<close>

definition select_set_value :: "select_el \<Rightarrow> jsstring \<Rightarrow> select_el" where
  "select_set_value s v = s\<lparr>selectedIndex := firstIndex (\<lambda>opt. opt_value opt = v) (options s)\<rparr>"

text \<open>
  \<open>select.add(option)\<close> appends the option. A dropdown with options always shows one of
  them: when none is selected the first one becomes selected.
\<close>

definition select_add :: "select_el \<Rightarrow> option_el \<Rightarrow> select_el" where
  "select_add s opt =
     s\<lparr>options := options s @ [opt],
       selectedIndex := (case selectedIndex s of None \<Rightarrow> Some 0 | Some i \<Rightarrow> Some i)\<rparr>"

text \<open>
  \<open>select.innerHTML = '<option value="">text</option>'\<close>: the dropdown is left with that
  single option, of empty value, selected.
\<close>

definition select_placeholder :: "jsstring \<Rightarrow> select_el \<Rightarrow> select_el" where
  "select_placeholder text s =
     s\<lparr>options := [\<lparr>opt_text = text, opt_value = []\<rparr>], selectedIndex := Some 0\<rparr>"

text \<open>
  What \<open>resParts\<close> shows: one tag per part, or the note that no part is listed.
\<close>

datatype parts_view = Tags "jsstring list" | NoPartsListed

text \<open>
  The elements cached in \<open>els\<close> that the functions read or write. \<open>card_hidden\<close> is
  whether the class list of \<open>els.card\<close> holds \<open>hidden\<close>.
\<close>

record els =
  els_brand :: select_el
  els_type :: select_el
  els_code :: select_el
  card_hidden :: bool
  resCode :: jsstring
  resIssue :: jsstring
  resFix :: jsstring
  resParts :: parts_view
  btnBuy :: jsstring
  btnVideo :: jsstring

section \<open>The functions of service.js\<close>

text \<open>
  The global \<open>DB\<close> is assigned once, by \<open>fetchData\<close>, and only read afterwards: the
  functions take it as their first argument.
\<close>

definition hideSolution :: "els \<Rightarrow> els" where
  "hideSolution st = st\<lparr>card_hidden := True\<rparr>"

subsection \<open>populateBrands\<close>

text \<open>The constant \<open>brands\<close> of \<open>populateBrands\<close>.\<close>

definition brands :: "entry list \<Rightarrow> jsstring list" where
  "brands DB = sort (new_Set (map brand DB))"

definition populateBrands :: "entry list \<Rightarrow> els \<Rightarrow> els" where
  "populateBrands DB st =
     st\<lparr>els_brand :=
          fold (\<lambda>b s. select_add s \<lparr>opt_text = b, opt_value = b\<rparr>) (brands DB) (els_brand st)\<rparr>"

subsection \<open>renderSolution\<close>

text \<open>The constant \<open>entry\<close> of \<open>renderSolution\<close>: \<open>DB.find\<close> on the three selected values.\<close>

definition renderSolution_entry ::
  "entry list \<Rightarrow> jsstring \<Rightarrow> jsstring \<Rightarrow> jsstring \<Rightarrow> entry option" where
  "renderSolution_entry DB b t c =
     find (\<lambda>item. brand item = b \<and> type item = t \<and> code item = c) DB"

definition renderSolution :: "entry list \<Rightarrow> els \<Rightarrow> els" where
  "renderSolution DB st =
     (case renderSolution_entry DB (select_value (els_brand st)) (select_value (els_type st))
             (select_value (els_code st)) of
        None \<Rightarrow> hideSolution st
      | Some e \<Rightarrow>
          st\<lparr>resCode := code e,
             resIssue := issue e,
             resFix := fix_summary e,
             resParts := (if 0 < length (parts_needed e) then Tags (parts_needed e)
                          else NoPartsListed),
             btnBuy := affiliate_link e,
             btnVideo := video_guide e,
             card_hidden := False\<rparr>)"

subsection \<open>updateCodes\<close>

text \<open>
  An optional argument (\<open>preSelectedType\<close>, \<open>preSelectedCode\<close>) is \<open>null\<close> or a string; it
  passes an \<open>if\<close> when it is a non-empty string.
\<close>

definition truthy :: "jsstring option \<Rightarrow> bool" where
  "truthy p = (case p of None \<Rightarrow> False | Some s \<Rightarrow> s \<noteq> [])"

text \<open>The constant \<open>codes\<close> of \<open>updateCodes\<close>.\<close>

definition codes :: "entry list \<Rightarrow> jsstring \<Rightarrow> jsstring \<Rightarrow> entry list" where
  "codes DB selectedBrand selectedType =
     filter (\<lambda>item. brand item = selectedBrand \<and> type item = selectedType) DB"

definition code_option :: "entry \<Rightarrow> option_el" where
  "code_option item = \<lparr>opt_text = code item @ str '' - '' @ issue item, opt_value = code item\<rparr>"

definition updateCodes :: "entry list \<Rightarrow> jsstring option \<Rightarrow> els \<Rightarrow> els" where
  "updateCodes DB preSelectedCode st =
     (let st1 = hideSolution
                  (st\<lparr>els_code := (select_placeholder (str ''Select Code'') (els_code st))
                                     \<lparr>disabled := True\<rparr>\<rparr>);
          selectedBrand = select_value (els_brand st1);
          selectedType = select_value (els_type st1)
      in if selectedBrand = [] \<or> selectedType = [] then st1
         else
           let st2 = st1\<lparr>els_code :=
                          (fold (\<lambda>item s. select_add s (code_option item))
                             (codes DB selectedBrand selectedType) (els_code st1))
                          \<lparr>disabled := False\<rparr>\<rparr>
           in if truthy preSelectedCode
              then renderSolution DB
                     (st2\<lparr>els_code := select_set_value (els_code st2) (the preSelectedCode)\<rparr>)
              else st2)"

subsection \<open>updateTypes\<close>

text \<open>The constant \<open>availableTypes\<close> of \<open>updateTypes\<close>.\<close>

definition availableTypes :: "entry list \<Rightarrow> jsstring \<Rightarrow> jsstring list" where
  "availableTypes DB selectedBrand =
     new_Set (map type (filter (\<lambda>item. brand item = selectedBrand) DB))"

definition updateTypes :: "entry list \<Rightarrow> jsstring option \<Rightarrow> els \<Rightarrow> els" where
  "updateTypes DB preSelectedType st =
     (let st1 = hideSolution
                  (st\<lparr>els_type := (select_placeholder (str ''Select Type'') (els_type st))
                                     \<lparr>disabled := True\<rparr>,
                      els_code := (select_placeholder (str ''--'') (els_code st))
                                     \<lparr>disabled := True\<rparr>\<rparr>);
          selectedBrand = select_value (els_brand st1)
      in if selectedBrand = [] then st1
         else
           let st2 = st1\<lparr>els_type :=
                          (fold (\<lambda>t s. select_add s \<lparr>opt_text = t, opt_value = t\<rparr>)
                             (availableTypes DB selectedBrand) (els_type st1))
                          \<lparr>disabled := False\<rparr>\<rparr>
           in if truthy preSelectedType \<and>
                 the preSelectedType \<in> set (availableTypes DB selectedBrand)
              then updateCodes DB None
                     (st2\<lparr>els_type := select_set_value (els_type st2) (the preSelectedType)\<rparr>)
              else st2)"

subsection \<open>handleSearch\<close>

text \<open>The template literal that \<open>handleSearch\<close> lower-cases and searches.\<close>

definition fullString :: "entry \<Rightarrow> jsstring" where
  "fullString item =
     brand item @ str '' '' @ code item @ str '' '' @ issue item @ str '' '' @ fix_summary item"

text \<open>The constant \<open>match\<close> of \<open>handleSearch\<close>, for the normalized query \<open>q\<close>.\<close>

definition handleSearch_match ::
  "(jsstring \<Rightarrow> jsstring) \<Rightarrow> entry list \<Rightarrow> jsstring \<Rightarrow> entry option" where
  "handleSearch_match toLowerCase DB q =
     find (\<lambda>item. str_includes (toLowerCase (fullString item)) q) DB"

text \<open>
  \<open>handleSearch\<close> returns the page as it leaves it, and the \<open>match\<close> its timer holds:
  \<open>None\<close> when it returns without setting the timer. \<open>handleSearch_timeout\<close> is the
  timer's callback.
\<close>

definition handleSearch ::
  "(jsstring \<Rightarrow> jsstring) \<Rightarrow> entry list \<Rightarrow> jsstring \<Rightarrow> els \<Rightarrow> els \<times> entry option" where
  "handleSearch toLowerCase DB query st =
     (let q = trim (toLowerCase query)
      in if length q < 2 then (st, None)
         else
           case handleSearch_match toLowerCase DB q of
             None \<Rightarrow> (st, None)
           | Some m \<Rightarrow>
               (updateTypes DB (Some (type m))
                  (st\<lparr>els_brand := select_set_value (els_brand st) (brand m)\<rparr>),
                Some m))"

definition handleSearch_timeout :: "entry list \<Rightarrow> entry \<Rightarrow> els \<Rightarrow> els" where
  "handleSearch_timeout DB m st =
     renderSolution DB (st\<lparr>els_code := select_set_value (els_code st) (code m)\<rparr>)"

section \<open>The catalog as parsed, and what throws\<close>

text \<open>
  \<open>fetchData\<close> assigns to \<open>DB\<close> what the JSON parser delivers, unchecked. An array of
  it may hold \<open>null\<close> where an entry is expected, and reading a property of \<open>null\<close>
  throws a \<open>TypeError\<close>. Here an element of the catalog is an entry or \<open>None\<close> for
  \<open>null\<close>, and each function returns the error it throws, if any, with the page as it
  leaves it.
\<close>

datatype js_error = TypeError

text \<open>
  \<open>DB.map\<close>, \<open>DB.filter\<close> and \<open>DB.find\<close> with a callback that reads properties of its
  argument: the callback throws on \<open>null\<close>, and the error leaves the array method. An
  element that \<open>filter\<close> keeps or \<open>find\<close> returns is an entry; \<open>find\<close> reads no element
  after the one it returns.
\<close>

fun map_js :: "(entry \<Rightarrow> 'a) \<Rightarrow> entry option list \<Rightarrow> js_error + 'a list" where
  "map_js f [] = Inr []"
| "map_js f (None # items) = Inl TypeError"
| "map_js f (Some e # items) =
     (case map_js f items of Inl err \<Rightarrow> Inl err | Inr ys \<Rightarrow> Inr (f e # ys))"

fun filter_js :: "(entry \<Rightarrow> bool) \<Rightarrow> entry option list \<Rightarrow> js_error + entry list" where
  "filter_js P [] = Inr []"
| "filter_js P (None # items) = Inl TypeError"
| "filter_js P (Some e # items) =
     (case filter_js P items of
        Inl err \<Rightarrow> Inl err
      | Inr ys \<Rightarrow> Inr (if P e then e # ys else ys))"

fun find_js :: "(entry \<Rightarrow> bool) \<Rightarrow> entry option list \<Rightarrow> js_error + entry option" where
  "find_js P [] = Inr None"
| "find_js P (None # items) = Inl TypeError"
| "find_js P (Some e # items) = (if P e then Inr (Some e) else find_js P items)"

text \<open>
  The functions of the source over such a catalog. An error thrown by \<open>updateTypes\<close>
  leaves \<open>handleSearch\<close> before it sets its timer.
\<close>

definition populateBrands_js :: "entry option list \<Rightarrow> els \<Rightarrow> js_error option \<times> els" where
  "populateBrands_js DB st =
     (case map_js brand DB of
        Inl err \<Rightarrow> (Some err, st)
      | Inr bs \<Rightarrow>
          (None,
           st\<lparr>els_brand :=
                fold (\<lambda>b s. select_add s \<lparr>opt_text = b, opt_value = b\<rparr>) (sort (new_Set bs))
                  (els_brand st)\<rparr>))"

definition renderSolution_js :: "entry option list \<Rightarrow> els \<Rightarrow> js_error option \<times> els" where
  "renderSolution_js DB st =
     (case find_js (\<lambda>item. brand item = select_value (els_brand st) \<and>
                           type item = select_value (els_type st) \<and>
                           code item = select_value (els_code st)) DB of
        Inl err \<Rightarrow> (Some err, st)
      | Inr None \<Rightarrow> (None, hideSolution st)
      | Inr (Some e) \<Rightarrow>
          (None,
           st\<lparr>resCode := code e,
              resIssue := issue e,
              resFix := fix_summary e,
              resParts := (if 0 < length (parts_needed e) then Tags (parts_needed e)
                           else NoPartsListed),
              btnBuy := affiliate_link e,
              btnVideo := video_guide e,
              card_hidden := False\<rparr>))"

definition updateCodes_js ::
  "entry option list \<Rightarrow> jsstring option \<Rightarrow> els \<Rightarrow> js_error option \<times> els" where
  "updateCodes_js DB preSelectedCode st =
     (let st1 = hideSolution
                  (st\<lparr>els_code := (select_placeholder (str ''Select Code'') (els_code st))
                                     \<lparr>disabled := True\<rparr>\<rparr>);
          selectedBrand = select_value (els_brand st1);
          selectedType = select_value (els_type st1)
      in if selectedBrand = [] \<or> selectedType = [] then (None, st1)
         else
           case filter_js (\<lambda>item. brand item = selectedBrand \<and> type item = selectedType) DB of
             Inl err \<Rightarrow> (Some err, st1)
           | Inr cs \<Rightarrow>
               let st2 = st1\<lparr>els_code :=
                              (fold (\<lambda>item s. select_add s (code_option item)) cs (els_code st1))
                              \<lparr>disabled := False\<rparr>\<rparr>
               in if truthy preSelectedCode
                  then renderSolution_js DB
                         (st2\<lparr>els_code := select_set_value (els_code st2) (the preSelectedCode)\<rparr>)
                  else (None, st2))"

definition updateTypes_js ::
  "entry option list \<Rightarrow> jsstring option \<Rightarrow> els \<Rightarrow> js_error option \<times> els" where
  "updateTypes_js DB preSelectedType st =
     (let st1 = hideSolution
                  (st\<lparr>els_type := (select_placeholder (str ''Select Type'') (els_type st))
                                     \<lparr>disabled := True\<rparr>,
                      els_code := (select_placeholder (str ''--'') (els_code st))
                                     \<lparr>disabled := True\<rparr>\<rparr>);
          selectedBrand = select_value (els_brand st1)
      in if selectedBrand = [] then (None, st1)
         else
           case filter_js (\<lambda>item. brand item = selectedBrand) DB of
             Inl err \<Rightarrow> (Some err, st1)
           | Inr items \<Rightarrow>
               let ts = new_Set (map type items);
                   st2 = st1\<lparr>els_type :=
                              (fold (\<lambda>t s. select_add s \<lparr>opt_text = t, opt_value = t\<rparr>) ts
                                 (els_type st1))
                              \<lparr>disabled := False\<rparr>\<rparr>
               in if truthy preSelectedType \<and> the preSelectedType \<in> set ts
                  then updateCodes_js DB None
                         (st2\<lparr>els_type := select_set_value (els_type st2) (the preSelectedType)\<rparr>)
                  else (None, st2))"

definition handleSearch_js ::
  "(jsstring \<Rightarrow> jsstring) \<Rightarrow> entry option list \<Rightarrow> jsstring \<Rightarrow> els \<Rightarrow>
     js_error option \<times> els \<times> entry option" where
  "handleSearch_js toLowerCase DB query st =
     (let q = trim (toLowerCase query)
      in if length q < 2 then (None, st, None)
         else
           case find_js (\<lambda>item. str_includes (toLowerCase (fullString item)) q) DB of
             Inl err \<Rightarrow> (Some err, st, None)
           | Inr None \<Rightarrow> (None, st, None)
           | Inr (Some m) \<Rightarrow>
               (case updateTypes_js DB (Some (type m))
                       (st\<lparr>els_brand := select_set_value (els_brand st) (brand m)\<rparr>) of
                  (Some err, st') \<Rightarrow> (Some err, st', None)
                | (None, st') \<Rightarrow> (None, st', Some m)))"

definition handleSearch_timeout_js ::
  "entry option list \<Rightarrow> entry \<Rightarrow> els \<Rightarrow> js_error option \<times> els" where
  "handleSearch_timeout_js DB m st =
     renderSolution_js DB (st\<lparr>els_code := select_set_value (els_code st) (code m)\<rparr>)"

section \<open>Reference notions\<close>

text \<open>
  The values of a list in first-seen order: the value at each position where it has not
  occurred at an earlier position, by increasing position.
\<close>

definition firstSeen :: "'a list \<Rightarrow> 'a list" where
  "firstSeen xs = map (\<lambda>i. xs ! i) (filter (\<lambda>i. xs ! i \<notin> set (take i xs)) [0..<length xs])"

text \<open>
  The concatenation of brand, code, issue and fix summary, a space between each two,
  lower-cased, has \<open>q\<close> as a substring (a contiguous run of its code units).
\<close>

definition spec_matches :: "(jsstring \<Rightarrow> jsstring) \<Rightarrow> jsstring \<Rightarrow> entry \<Rightarrow> bool" where
  "spec_matches toLowerCase q item =
     sublist q
       (toLowerCase
          (brand item @ [0x20] @ code item @ [0x20] @ issue item @ [0x20] @ fix_summary item))"

text \<open>The composite key of an entry.\<close>

definition entry_key :: "entry \<Rightarrow> jsstring \<times> jsstring \<times> jsstring" where
  "entry_key item = (brand item, type item, code item)"

text \<open>The solution card is visible and shows the fields of the entry \<open>e\<close>.\<close>

definition displays :: "els \<Rightarrow> entry \<Rightarrow> bool" where
  "displays st e =
     (\<not> card_hidden st \<and> resCode st = code e \<and> resIssue st = issue e \<and>
      resFix st = fix_summary e \<and>
      resParts st = (if parts_needed e = [] then NoPartsListed else Tags (parts_needed e)) \<and>
      btnBuy st = affiliate_link e \<and> btnVideo st = video_guide e)"

section \<open>An example page and catalog\<close>

text \<open>
  A page before the catalog is loaded, and a catalog of four entries, two of them with the
  same brand, type and code. \<open>e_f21\<close> is the example entry of the specification.
\<close>

definition example_page :: els where
  "example_page =
     \<lparr>els_brand = \<lparr>options = [\<lparr>opt_text = str ''Select Brand'', opt_value = []\<rparr>],
                   selectedIndex = Some 0, disabled = False\<rparr>,
      els_type = \<lparr>options = [\<lparr>opt_text = str ''Select Type'', opt_value = []\<rparr>],
                  selectedIndex = Some 0, disabled = True\<rparr>,
      els_code = \<lparr>options = [\<lparr>opt_text = str ''--'', opt_value = []\<rparr>],
                  selectedIndex = Some 0, disabled = True\<rparr>,
      card_hidden = True, resCode = [], resIssue = [], resFix = [], resParts = Tags [],
      btnBuy = [], btnVideo = []\<rparr>"

definition mk_entry :: "string \<Rightarrow> string \<Rightarrow> string \<Rightarrow> string \<Rightarrow> string \<Rightarrow> string list \<Rightarrow> entry" where
  "mk_entry b t c i f ps =
     \<lparr>brand = str b, type = str t, code = str c, issue = str i, fix_summary = str f,
      parts_needed = map str ps, affiliate_link = [], video_guide = []\<rparr>"

definition e_f21 :: entry where
  "e_f21 = mk_entry ''Acme'' ''Washer'' ''F21'' ''Long Drain Error'' ''Clean drain pump'' [''Pump'']"

definition e_dup :: entry where
  "e_dup = mk_entry ''Acme'' ''Washer'' ''F21'' ''Door Lock Error'' ''Replace door latch'' []"

definition e_e18 :: entry where
  "e_e18 = mk_entry ''Bosch'' ''Washer'' ''E18'' ''Drain blocked'' ''Clean filter'' []"

definition e_d80 :: entry where
  "e_d80 = mk_entry ''Acme'' ''Dryer'' ''D80'' ''Vent restricted'' ''Clean vent'' []"

definition example_DB :: "entry list" where
  "example_DB = [e_e18, e_f21, e_dup, e_d80]"

text \<open>The page once the catalog is loaded and the brand Acme chosen.\<close>

definition example_acme :: els where
  "example_acme =
     (populateBrands example_DB example_page)
       \<lparr>els_brand := select_set_value (els_brand (populateBrands example_DB example_page))
                       (str ''Acme'')\<rparr>"

text \<open>The same page after \<open>updateTypes\<close> with the type Washer preselected.\<close>

definition example_acme_washer :: els where
  "example_acme_washer = updateTypes example_DB (Some (str ''Washer'')) example_acme"

text \<open>
  The page once the catalog is loaded; then after a search for \<open>drain\<close> and its timer;
  then with the placeholder of the code dropdown chosen while the card still shows.
\<close>

definition example_loaded :: els where
  "example_loaded = populateBrands example_DB example_page"

definition example_shown :: els where
  "example_shown =
     handleSearch_timeout example_DB e_e18
       (fst (handleSearch toLowerCase_ascii example_DB (str ''drain'') example_loaded))"

definition example_stale :: els where
  "example_stale = example_shown\<lparr>els_code := select_set_value (els_code example_shown) []\<rparr>"

text \<open>
  A catalog whose keys are unique, and a catalog whose only entry has an empty brand, each
  with the page once it is loaded.
\<close>

definition unique_DB :: "entry list" where
  "unique_DB = [e_e18, e_f21, e_d80]"

definition e_blank :: entry where
  "e_blank = mk_entry [] ''Washer'' ''F21'' ''Long Drain Error'' ''Clean drain pump'' [''Pump'']"

definition blank_DB :: "entry list" where
  "blank_DB = [e_blank]"

definition unique_loaded :: els where
  "unique_loaded = populateBrands unique_DB example_page"

definition blank_loaded :: els where
  "blank_loaded = populateBrands blank_DB example_page"

section \<open>Strings, sets and dropdowns\<close>

lemma str_includes_iff: "str_includes s q \<longleftrightarrow> (\<exists>ps ss. s = ps @ q @ ss)"
proof (induction s)
  case Nil
  then show ?case by simp
next
  case (Cons c s)
  show ?case
  proof
    assume "str_includes (c # s) q"
    then consider "prefix q (c # s)" | "str_includes s q" by auto
    then show "\<exists>ps ss. c # s = ps @ q @ ss"
    proof cases
      case 1
      then obtain ss where "c # s = q @ ss" by (auto simp: prefix_def)
      then have "c # s = [] @ q @ ss" by simp
      then show ?thesis by blast
    next
      case 2
      with Cons.IH obtain ps ss where "s = ps @ q @ ss" by blast
      then have "c # s = (c # ps) @ q @ ss" by simp
      then show ?thesis by blast
    qed
  next
    assume "\<exists>ps ss. c # s = ps @ q @ ss"
    then obtain ps ss where eq: "c # s = ps @ q @ ss" by blast
    show "str_includes (c # s) q"
    proof (cases ps)
      case Nil
      with eq have "prefix q (c # s)" by (simp add: prefix_def)
      then show ?thesis by simp
    next
      case (Cons p ps')
      with eq have "s = ps' @ q @ ss" by simp
      with Cons.IH have "str_includes s q" by blast
      then show ?thesis by simp
    qed
  qed
qed

lemma new_Set_snoc: "new_Set (xs @ [x]) = Set_add x (new_Set xs)"
  by (simp add: new_Set_def)

lemma set_new_Set: "set (new_Set xs) = set xs"
  by (induction xs rule: rev_induct) (auto simp: new_Set_snoc Set_add_def new_Set_def)

lemma distinct_new_Set: "distinct (new_Set xs)"
  by (induction xs rule: rev_induct) (auto simp: new_Set_snoc Set_add_def new_Set_def)

lemma firstSeen_snoc:
  "firstSeen (xs @ [x]) = firstSeen xs @ (if x \<in> set xs then [] else [x])"
proof -
  let ?P = "\<lambda>i. (xs @ [x]) ! i \<notin> set (take i (xs @ [x]))"
  have a: "filter ?P [0..<length xs] = filter (\<lambda>i. xs ! i \<notin> set (take i xs)) [0..<length xs]"
    by (rule filter_cong) (auto simp: nth_append)
  have b: "map (\<lambda>i. (xs @ [x]) ! i) (filter (\<lambda>i. xs ! i \<notin> set (take i xs)) [0..<length xs]) =
           map (\<lambda>i. xs ! i) (filter (\<lambda>i. xs ! i \<notin> set (take i xs)) [0..<length xs])"
    by (rule map_cong) (auto simp: nth_append)
  have c: "[0..<length (xs @ [x])] = [0..<length xs] @ [length xs]"
    by simp
  have d: "map (\<lambda>i. (xs @ [x]) ! i) (filter ?P [length xs]) = (if x \<in> set xs then [] else [x])"
    by simp
  have "firstSeen (xs @ [x]) =
          map (\<lambda>i. (xs @ [x]) ! i) (filter ?P [0..<length xs]) @
          map (\<lambda>i. (xs @ [x]) ! i) (filter ?P [length xs])"
    unfolding firstSeen_def c filter_append map_append ..
  also have "\<dots> = firstSeen xs @ (if x \<in> set xs then [] else [x])"
    unfolding a b d firstSeen_def ..
  finally show ?thesis .
qed

lemma new_Set_firstSeen: "new_Set xs = firstSeen xs"
proof (induction xs rule: rev_induct)
  case Nil
  show ?case by (simp add: new_Set_def firstSeen_def)
next
  case (snoc x xs)
  then show ?case
    by (simp add: new_Set_snoc firstSeen_snoc Set_add_def flip: set_new_Set [of xs])
qed

lemma firstIndex_None: "firstIndex P xs = None \<longleftrightarrow> (\<forall>x\<in>set xs. \<not> P x)"
  by (induction xs) auto

lemma firstIndex_Some: "firstIndex P xs = Some i \<Longrightarrow> i < length xs \<and> P (xs ! i)"
  by (induction xs arbitrary: i) (auto split: if_splits)

lemma select_value_set_value:
  "select_value (select_set_value s v) = (if v \<in> opt_value ` set (options s) then v else [])"
proof (cases "firstIndex (\<lambda>opt. opt_value opt = v) (options s)")
  case None
  then have "v \<notin> opt_value ` set (options s)"
    by (auto simp: firstIndex_None)
  with None show ?thesis
    by (simp add: select_value_def select_set_value_def)
next
  case (Some i)
  from firstIndex_Some [OF this] have "i < length (options s)" "opt_value (options s ! i) = v"
    by simp_all
  then have "v \<in> opt_value ` set (options s)"
    by (metis imageI nth_mem)
  with Some \<open>i < length (options s)\<close> \<open>opt_value (options s ! i) = v\<close> show ?thesis
    by (simp add: select_value_def select_set_value_def)
qed

lemma options_fold_add:
  "options (fold (\<lambda>x s. select_add s (f x)) xs s) = options s @ map f xs"
  by (induction xs arbitrary: s) (simp_all add: select_add_def)

lemma str_includes_sublist: "str_includes s q = sublist q s"
  by (simp add: str_includes_iff sublist_def)

lemma str_space: "str '' '' = [0x20]"
  by (simp add: str_def)

lemma includes_fullString:
  "str_includes (toLowerCase (fullString item)) q = spec_matches toLowerCase q item"
  by (simp add: str_includes_sublist spec_matches_def fullString_def str_space)

lemma snd_handleSearch:
  "snd (handleSearch toLowerCase DB query st) =
     (if length (trim (toLowerCase query)) < 2 then None
      else find (spec_matches toLowerCase (trim (toLowerCase query))) DB)"
  by (simp add: handleSearch_def handleSearch_match_def includes_fullString Let_def
      split: option.split)

lemma q_drain: "trim (toLowerCase_ascii (str ''  DRAIN '')) = str ''drain''"
  by code_simp

lemma q_zz: "trim (toLowerCase_ascii (str ''zz'')) = str ''zz''"
  by code_simp

section \<open>What the functions leave of the page\<close>

lemma renderSolution_selects:
  "els_brand (renderSolution DB st) = els_brand st"
  "els_type (renderSolution DB st) = els_type st"
  "els_code (renderSolution DB st) = els_code st"
  by (simp_all add: renderSolution_def hideSolution_def split: option.split)

lemma updateCodes_selects:
  "els_brand (updateCodes DB pre st) = els_brand st"
  "els_type (updateCodes DB pre st) = els_type st"
  by (simp_all add: updateCodes_def hideSolution_def Let_def renderSolution_selects)

lemma updateCodes_options:
  "options (els_code (updateCodes DB pre st)) =
     \<lparr>opt_text = str ''Select Code'', opt_value = []\<rparr> #
     map code_option
       (if select_value (els_brand st) = [] \<or> select_value (els_type st) = [] then []
        else codes DB (select_value (els_brand st)) (select_value (els_type st)))"
  by (simp add: updateCodes_def hideSolution_def Let_def renderSolution_selects
      options_fold_add select_placeholder_def select_set_value_def)

lemma updateTypes_brand:
  "els_brand (updateTypes DB pre st) = els_brand st"
  by (simp add: updateTypes_def hideSolution_def Let_def updateCodes_selects)

lemma updateTypes_options:
  "options (els_type (updateTypes DB pre st)) =
     \<lparr>opt_text = str ''Select Type'', opt_value = []\<rparr> #
     map (\<lambda>t. \<lparr>opt_text = t, opt_value = t\<rparr>)
       (if select_value (els_brand st) = [] then []
        else availableTypes DB (select_value (els_brand st)))"
  by (simp add: updateTypes_def hideSolution_def Let_def updateCodes_selects
      options_fold_add select_placeholder_def select_set_value_def)

lemma count_list_filter:
  "count_list (filter P xs) x = (if P x then count_list xs x else 0)"
  by (induction xs) auto

lemma renderSolution_entry_Some_iff:
  "renderSolution_entry DB b t c = Some e \<longleftrightarrow>
     (\<exists>i<length DB. DB ! i = e \<and> brand e = b \<and> type e = t \<and> code e = c \<and>
        (\<forall>j<i. \<not> (brand (DB ! j) = b \<and> type (DB ! j) = t \<and> code (DB ! j) = c)))"
  unfolding renderSolution_entry_def find_Some_iff by auto

lemma renderSolution_entry_None_iff:
  "renderSolution_entry DB b t c = None \<longleftrightarrow>
     \<not> (\<exists>e\<in>set DB. brand e = b \<and> type e = t \<and> code e = c)"
  unfolding renderSolution_entry_def find_None_iff by auto

lemma renderSolution_displays:
  "renderSolution_entry DB (select_value (els_brand st)) (select_value (els_type st))
     (select_value (els_code st)) = Some e \<Longrightarrow> displays (renderSolution DB st) e"
  by (simp add: renderSolution_def displays_def)

lemma set_availableTypes:
  "set (availableTypes DB b) = type ` {item \<in> set DB. brand item = b}"
  by (simp add: availableTypes_def set_new_Set)

lemma updateTypes_preselected:
  assumes "select_value (els_brand st) \<noteq> []" and "t \<noteq> []"
      and "t \<in> set (availableTypes DB (select_value (els_brand st)))"
  shows "select_value (els_type (updateTypes DB (Some t) st)) = t"
    and "options (els_code (updateTypes DB (Some t) st)) =
           \<lparr>opt_text = str ''Select Code'', opt_value = []\<rparr> #
           map code_option (codes DB (select_value (els_brand st)) t)"
proof -
  let ?b = "select_value (els_brand st)"
  let ?st1 = "hideSolution
            (st\<lparr>els_type := (select_placeholder (str ''Select Type'') (els_type st))
                               \<lparr>disabled := True\<rparr>,
                els_code := (select_placeholder (str ''--'') (els_code st))
                               \<lparr>disabled := True\<rparr>\<rparr>)"
  let ?st2 = "?st1\<lparr>els_type :=
                    (fold (\<lambda>t s. select_add s \<lparr>opt_text = t, opt_value = t\<rparr>)
                       (availableTypes DB ?b) (els_type ?st1))
                    \<lparr>disabled := False\<rparr>\<rparr>"
  let ?st3 = "?st2\<lparr>els_type := select_set_value (els_type ?st2) t\<rparr>"
  have b1: "select_value (els_brand ?st1) = ?b"
    by (simp add: hideSolution_def)
  from assms have u: "updateTypes DB (Some t) st = updateCodes DB None ?st3"
    unfolding updateTypes_def Let_def b1 by (simp add: truthy_def)
  have "t \<in> opt_value ` set (options (els_type ?st2))"
    using assms(3) by (force simp: options_fold_add)
  then have ty: "select_value (els_type ?st3) = t"
    by (simp add: select_value_set_value)
  have br: "select_value (els_brand ?st3) = ?b"
    by (simp add: hideSolution_def)
  show "select_value (els_type (updateTypes DB (Some t) st)) = t"
    unfolding u updateCodes_selects by (rule ty)
  show "options (els_code (updateTypes DB (Some t) st)) =
           \<lparr>opt_text = str ''Select Code'', opt_value = []\<rparr> #
           map code_option (codes DB ?b t)"
    unfolding u updateCodes_options ty br using assms(1,2) by simp
qed

lemma handleSearch_Some:
  assumes "snd (handleSearch toLowerCase DB query st) = Some m"
  shows "m \<in> set DB"
    and "fst (handleSearch toLowerCase DB query st) =
           updateTypes DB (Some (type m))
             (st\<lparr>els_brand := select_set_value (els_brand st) (brand m)\<rparr>)"
proof -
  from assms have f: "handleSearch_match toLowerCase DB (trim (toLowerCase query)) = Some m"
    by (simp add: handleSearch_def Let_def split: if_splits option.splits)
  then show "m \<in> set DB"
    unfolding handleSearch_match_def find_Some_iff by auto
  from assms f show "fst (handleSearch toLowerCase DB query st) =
           updateTypes DB (Some (type m))
             (st\<lparr>els_brand := select_set_value (els_brand st) (brand m)\<rparr>)"
    by (simp add: handleSearch_def Let_def split: if_splits)
qed

lemma search_then_timeout_selects:
  assumes "m \<in> set DB" and "brand m \<noteq> []" and "type m \<noteq> []"
      and "brand m \<in> opt_value ` set (options (els_brand st))"
  defines "st' \<equiv> updateTypes DB (Some (type m))
                    (st\<lparr>els_brand := select_set_value (els_brand st) (brand m)\<rparr>)"
  defines "st'' \<equiv> st'\<lparr>els_code := select_set_value (els_code st') (code m)\<rparr>"
  shows "select_value (els_brand st'') = brand m \<and> select_value (els_type st'') = type m \<and>
         select_value (els_code st'') = code m"
proof -
  let ?st0 = "st\<lparr>els_brand := select_set_value (els_brand st) (brand m)\<rparr>"
  have b0: "select_value (els_brand ?st0) = brand m"
    using assms(4) by (simp add: select_value_set_value)
  have av: "type m \<in> set (availableTypes DB (select_value (els_brand ?st0)))"
    unfolding b0 set_availableTypes using assms(1) by blast
  have ne: "select_value (els_brand ?st0) \<noteq> []"
    unfolding b0 by (rule assms(2))
  note pre = updateTypes_preselected [OF ne assms(3) av]
  have br: "select_value (els_brand st') = brand m"
    unfolding st'_def updateTypes_brand by (rule b0)
  have ty: "select_value (els_type st') = type m"
    unfolding st'_def by (rule pre(1))
  have "m \<in> set (codes DB (brand m) (type m))"
    using assms(1) by (simp add: codes_def)
  then have "opt_value (code_option m) \<in> opt_value ` set (map code_option (codes DB (brand m) (type m)))"
    by (simp add: image_image)
  then have "code m \<in> opt_value ` set (options (els_code st'))"
    unfolding st'_def pre(2) b0 by (simp add: code_option_def)
  then have co: "select_value (els_code st'') = code m"
    by (simp add: st''_def select_value_set_value)
  from br ty co show ?thesis
    by (simp add: st''_def)
qed

lemma distinct_key_eq:
  assumes "distinct (map entry_key DB)" and "x \<in> set DB" and "y \<in> set DB"
      and "entry_key x = entry_key y"
  shows "x = y"
proof -
  from assms(1) have "inj_on entry_key (set DB)"
    by (simp add: distinct_map)
  with assms(2-4) show ?thesis
    by (auto dest: inj_onD)
qed

section \<open>Exact lookup\<close>

text \<open>
  Claim C2. For every catalog and every brand, type and code, the lookup of
  \<open>renderSolution\<close> (\<open>findExact\<close>) returns the first catalog entry whose brand, type and
  code are equal, code unit by code unit, to the three arguments, and returns nothing
  exactly when no entry of the catalog has these three fields. \<open>renderSolution\<close> hides the
  card exactly when the lookup on the three selected values returns nothing.
\<close>

theorem findExact_first_match:
  "(renderSolution_entry DB b t c = Some e \<longleftrightarrow>
      (\<exists>i<length DB. DB ! i = e \<and> brand e = b \<and> type e = t \<and> code e = c \<and>
         (\<forall>j<i. \<not> (brand (DB ! j) = b \<and> type (DB ! j) = t \<and> code (DB ! j) = c)))) \<and>
   (renderSolution_entry DB b t c = None \<longleftrightarrow>
      \<not> (\<exists>e\<in>set DB. brand e = b \<and> type e = t \<and> code e = c)) \<and>
   (card_hidden (renderSolution DB st) \<longleftrightarrow>
      renderSolution_entry DB (select_value (els_brand st)) (select_value (els_type st))
        (select_value (els_code st)) = None)"
proof (intro conjI)
  show "renderSolution_entry DB b t c = Some e \<longleftrightarrow>
      (\<exists>i<length DB. DB ! i = e \<and> brand e = b \<and> type e = t \<and> code e = c \<and>
         (\<forall>j<i. \<not> (brand (DB ! j) = b \<and> type (DB ! j) = t \<and> code (DB ! j) = c)))"
    by (rule renderSolution_entry_Some_iff)
  show "renderSolution_entry DB b t c = None \<longleftrightarrow>
      \<not> (\<exists>e\<in>set DB. brand e = b \<and> type e = t \<and> code e = c)"
    by (rule renderSolution_entry_None_iff)
  show "card_hidden (renderSolution DB st) \<longleftrightarrow>
      renderSolution_entry DB (select_value (els_brand st)) (select_value (els_type st))
        (select_value (els_code st)) = None"
    by (simp add: renderSolution_def hideSolution_def split: option.split)
qed

theorem findExact_first_match_witness:
  "renderSolution_entry example_DB (str ''Acme'') (str ''Washer'') (str ''F21'') = Some e_f21 \<and>
   renderSolution_entry example_DB (str ''acme'') (str ''Washer'') (str ''F21'') = None"
proof
  have k: "brand e_f21 = str ''Acme'' \<and> type e_f21 = str ''Washer'' \<and> code e_f21 = str ''F21''"
    by (simp add: e_f21_def mk_entry_def)
  have "1 < length example_DB \<and> example_DB ! 1 = e_f21 \<and> brand (example_DB ! 0) \<noteq> str ''Acme''"
    by (simp add: example_DB_def e_e18_def mk_entry_def str_def)
  with k have "\<exists>i<length example_DB. example_DB ! i = e_f21 \<and> brand e_f21 = str ''Acme'' \<and>
      type e_f21 = str ''Washer'' \<and> code e_f21 = str ''F21'' \<and>
      (\<forall>j<i. \<not> (brand (example_DB ! j) = str ''Acme'' \<and> type (example_DB ! j) = str ''Washer'' \<and>
                code (example_DB ! j) = str ''F21''))"
    by (intro exI [of _ 1]) simp
  then show "renderSolution_entry example_DB (str ''Acme'') (str ''Washer'') (str ''F21'') = Some e_f21"
    using findExact_first_match [of example_DB "str ''Acme''" "str ''Washer''" "str ''F21''" e_f21]
    by blast
  have "\<not> (\<exists>e\<in>set example_DB. brand e = str ''acme'' \<and> type e = str ''Washer'' \<and> code e = str ''F21'')"
    by (simp add: example_DB_def e_f21_def e_dup_def e_e18_def e_d80_def mk_entry_def str_def)
  then show "renderSolution_entry example_DB (str ''acme'') (str ''Washer'') (str ''F21'') = None"
    using findExact_first_match [of example_DB "str ''acme''" "str ''Washer''" "str ''F21''"]
    by blast
qed

section \<open>Text search\<close>

text \<open>
  Claim C1. For every catalog, page and query whose normalized form (lower-cased, then
  trimmed) has at least two code units, the match of \<open>handleSearch\<close> (\<open>searchText\<close>) is
  the entry of lowest index whose lower-cased concatenation of brand, code, issue and fix
  summary contains the normalized query, and there is no match exactly when no entry's
  concatenation contains it. So of two entries that both match, the earlier is returned.
\<close>

theorem searchText_first_match:
  assumes "2 \<le> length (trim (toLowerCase query))"
  shows "(snd (handleSearch toLowerCase DB query st) = Some e \<longleftrightarrow>
            (\<exists>i<length DB. DB ! i = e \<and> spec_matches toLowerCase (trim (toLowerCase query)) e \<and>
               (\<forall>j<i. \<not> spec_matches toLowerCase (trim (toLowerCase query)) (DB ! j)))) \<and>
         (snd (handleSearch toLowerCase DB query st) = None \<longleftrightarrow>
            (\<forall>item\<in>set DB. \<not> spec_matches toLowerCase (trim (toLowerCase query)) item))"
proof -
  let ?P = "spec_matches toLowerCase (trim (toLowerCase query))"
  from assms have s: "snd (handleSearch toLowerCase DB query st) = find ?P DB"
    by (simp add: snd_handleSearch)
  have "find ?P DB = Some e \<longleftrightarrow> (\<exists>i<length DB. DB ! i = e \<and> ?P e \<and> (\<forall>j<i. \<not> ?P (DB ! j)))"
    unfolding find_Some_iff by auto
  moreover have "find ?P DB = None \<longleftrightarrow> (\<forall>item\<in>set DB. \<not> ?P item)"
    unfolding find_None_iff by auto
  ultimately show ?thesis
    unfolding s by blast
qed

theorem searchText_first_match_witness:
  "2 \<le> length (trim (toLowerCase_ascii (str ''  DRAIN ''))) \<and>
   snd (handleSearch toLowerCase_ascii example_DB (str ''  DRAIN '') example_page) = Some e_e18 \<and>
   spec_matches toLowerCase_ascii (str ''drain'') e_f21 \<and>
   snd (handleSearch toLowerCase_ascii example_DB (str ''zz'') example_page) = None"
proof (intro conjI)
  show h: "2 \<le> length (trim (toLowerCase_ascii (str ''  DRAIN '')))"
    by code_simp
  have m: "spec_matches toLowerCase_ascii (str ''drain'') e_e18"
    by code_simp
  have "0 < length example_DB \<and> example_DB ! 0 = e_e18"
    by (simp add: example_DB_def)
  with m have "\<exists>i<length example_DB. example_DB ! i = e_e18 \<and>
      spec_matches toLowerCase_ascii (trim (toLowerCase_ascii (str ''  DRAIN ''))) e_e18 \<and>
      (\<forall>j<i. \<not> spec_matches toLowerCase_ascii (trim (toLowerCase_ascii (str ''  DRAIN '')))
                 (example_DB ! j))"
    unfolding q_drain by (intro exI [of _ 0]) simp
  with searchText_first_match [of toLowerCase_ascii "str ''  DRAIN ''" example_DB example_page e_e18, OF h]
  show "snd (handleSearch toLowerCase_ascii example_DB (str ''  DRAIN '') example_page) = Some e_e18"
    by blast
  show "spec_matches toLowerCase_ascii (str ''drain'') e_f21"
    by code_simp
  have h2: "2 \<le> length (trim (toLowerCase_ascii (str ''zz'')))"
    by code_simp
  have "\<forall>item\<in>set example_DB. \<not> spec_matches toLowerCase_ascii (str ''zz'') item"
    by code_simp
  with searchText_first_match [of toLowerCase_ascii "str ''zz''" example_DB example_page, OF h2]
  show "snd (handleSearch toLowerCase_ascii example_DB (str ''zz'') example_page) = None"
    unfolding q_zz by blast
qed

text \<open>
  Claim C6. For every catalog, page and query whose normalized form (lower-cased, then
  trimmed) has fewer than two code units, \<open>handleSearch\<close> finds nothing: it holds no match
  and leaves the page as it is, whatever the catalog contains.
\<close>

theorem short_query_not_found:
  "length (trim (toLowerCase query)) < 2 \<Longrightarrow> handleSearch toLowerCase DB query st = (st, None)"
  by (simp add: handleSearch_def)

theorem short_query_not_found_witness:
  "length (trim (toLowerCase_ascii (str '' X ''))) < 2 \<and>
   handleSearch toLowerCase_ascii example_DB (str '' X '') example_page = (example_page, None)"
proof -
  have h: "length (trim (toLowerCase_ascii (str '' X ''))) < 2"
    by code_simp
  from h short_query_not_found [of toLowerCase_ascii "str '' X ''" example_DB example_page, OF h]
  show ?thesis by simp
qed

text \<open>
  Claim C9. When the search finds nothing, which is exactly when the normalized query has
  fewer than two code units or no entry's lower-cased concatenation contains it,
  \<open>handleSearch\<close> sets no timer and leaves the whole page as it was: the three dropdowns,
  their selections, and the card with what it shows and whether it is hidden.
\<close>

theorem search_not_found_leaves_page:
  "(snd (handleSearch toLowerCase DB query st) = None \<longleftrightarrow>
      length (trim (toLowerCase query)) < 2 \<or>
      (\<forall>item\<in>set DB. \<not> spec_matches toLowerCase (trim (toLowerCase query)) item)) \<and>
   (snd (handleSearch toLowerCase DB query st) = None \<longrightarrow>
      handleSearch toLowerCase DB query st = (st, None))"
proof
  show "snd (handleSearch toLowerCase DB query st) = None \<longleftrightarrow>
      length (trim (toLowerCase query)) < 2 \<or>
      (\<forall>item\<in>set DB. \<not> spec_matches toLowerCase (trim (toLowerCase query)) item)"
    unfolding snd_handleSearch by (auto simp: find_None_iff)
  show "snd (handleSearch toLowerCase DB query st) = None \<longrightarrow>
      handleSearch toLowerCase DB query st = (st, None)"
    by (simp add: handleSearch_def Let_def split: option.splits)
qed

theorem search_not_found_leaves_page_witness:
  "displays example_shown e_e18 \<and>
   handleSearch toLowerCase_ascii example_DB (str ''zz'') example_shown = (example_shown, None) \<and>
   handleSearch toLowerCase_ascii example_DB (str '' D '') example_shown = (example_shown, None)"
proof -
  have d: "displays example_shown e_e18"
    by code_simp
  have a: "\<forall>item\<in>set example_DB.
             \<not> spec_matches toLowerCase_ascii (trim (toLowerCase_ascii (str ''zz''))) item"
    by code_simp
  have b: "length (trim (toLowerCase_ascii (str '' D ''))) < 2"
    by code_simp
  from a search_not_found_leaves_page [of toLowerCase_ascii example_DB "str ''zz''" example_shown]
  have r1: "handleSearch toLowerCase_ascii example_DB (str ''zz'') example_shown = (example_shown, None)"
    by blast
  from b search_not_found_leaves_page [of toLowerCase_ascii example_DB "str '' D ''" example_shown]
  have r2: "handleSearch toLowerCase_ascii example_DB (str '' D '') example_shown = (example_shown, None)"
    by blast
  from d r1 r2 show ?thesis
    by blast
qed

section \<open>The dropdowns\<close>

text \<open>
  Claim C3. For every catalog, the brands that \<open>populateBrands\<close> computes (\<open>listBrands\<close>)
  are exactly the brand values of the catalog, each once, in ascending lexicographic order
  of code units; the empty catalog gives the empty list. \<open>populateBrands\<close> appends one
  option per brand, in that order, to the brand dropdown.
\<close>

theorem listBrands_distinct_sorted:
  "set (brands DB) = brand ` set DB \<and> distinct (brands DB) \<and> sorted (brands DB) \<and>
   brands [] = [] \<and>
   options (els_brand (populateBrands DB st)) =
     options (els_brand st) @ map (\<lambda>b. \<lparr>opt_text = b, opt_value = b\<rparr>) (brands DB)"
proof (intro conjI)
  show "set (brands DB) = brand ` set DB"
    by (simp add: brands_def set_new_Set)
  show "distinct (brands DB)"
    by (simp add: brands_def distinct_new_Set)
  show "sorted (brands DB)"
    by (simp add: brands_def)
  show "brands [] = []"
    by (simp add: brands_def new_Set_def)
  show "options (els_brand (populateBrands DB st)) =
     options (els_brand st) @ map (\<lambda>b. \<lparr>opt_text = b, opt_value = b\<rparr>) (brands DB)"
    by (simp add: populateBrands_def options_fold_add)
qed

text \<open>
  Claim C4. For every catalog and page, \<open>updateTypes\<close> leaves in the type dropdown, after
  the placeholder, one option per type of \<open>listTypes\<close> for the selected brand: nothing when
  the selected brand is the empty string, and otherwise the types of the entries of that
  brand in first-seen catalog order, without duplicates and not sorted; for a brand that no
  entry has, there is none.
\<close>

theorem listTypes_first_seen:
  "options (els_type (updateTypes DB pre st)) =
     \<lparr>opt_text = str ''Select Type'', opt_value = []\<rparr> #
     map (\<lambda>t. \<lparr>opt_text = t, opt_value = t\<rparr>)
       (if select_value (els_brand st) = [] then []
        else availableTypes DB (select_value (els_brand st))) \<and>
   availableTypes DB b = firstSeen (map type (filter (\<lambda>item. brand item = b) DB)) \<and>
   distinct (availableTypes DB b) \<and>
   set (availableTypes DB b) = type ` {item \<in> set DB. brand item = b} \<and>
   (b \<notin> brand ` set DB \<longrightarrow> availableTypes DB b = [])"
proof (intro conjI)
  show "options (els_type (updateTypes DB pre st)) =
     \<lparr>opt_text = str ''Select Type'', opt_value = []\<rparr> #
     map (\<lambda>t. \<lparr>opt_text = t, opt_value = t\<rparr>)
       (if select_value (els_brand st) = [] then []
        else availableTypes DB (select_value (els_brand st)))"
    by (rule updateTypes_options)
  show "availableTypes DB b = firstSeen (map type (filter (\<lambda>item. brand item = b) DB))"
    by (simp add: availableTypes_def new_Set_firstSeen)
  show "distinct (availableTypes DB b)"
    by (simp add: availableTypes_def distinct_new_Set)
  show "set (availableTypes DB b) = type ` {item \<in> set DB. brand item = b}"
    by (simp add: availableTypes_def set_new_Set)
  show "b \<notin> brand ` set DB \<longrightarrow> availableTypes DB b = []"
  proof
    assume "b \<notin> brand ` set DB"
    then have "filter (\<lambda>item. brand item = b) DB = []"
      by (auto simp: filter_empty_conv)
    then show "availableTypes DB b = []"
      by (simp add: availableTypes_def new_Set_def)
  qed
qed

theorem listTypes_first_seen_witness:
  "str ''Zanussi'' \<notin> brand ` set example_DB \<and>
   availableTypes example_DB (str ''Zanussi'') = [] \<and>
   map opt_value (options (els_type (updateTypes example_DB None example_acme))) =
     [[], str ''Washer'', str ''Dryer''] \<and>
   map opt_value (options (els_type (updateTypes example_DB None example_page))) = [[]]"
proof (intro conjI)
  show h: "str ''Zanussi'' \<notin> brand ` set example_DB"
    by code_simp
  with listTypes_first_seen [of example_DB None example_page "str ''Zanussi''"]
  show "availableTypes example_DB (str ''Zanussi'') = []"
    by blast
  have a: "select_value (els_brand example_acme) = str ''Acme''"
    by code_simp
  have b: "availableTypes example_DB (str ''Acme'') = [str ''Washer'', str ''Dryer'']"
    by code_simp
  have c: "str ''Acme'' \<noteq> []"
    by code_simp
  from listTypes_first_seen [of example_DB None example_acme "[]"]
  show "map opt_value (options (els_type (updateTypes example_DB None example_acme))) =
     [[], str ''Washer'', str ''Dryer'']"
    by (simp add: a b c)
  have d: "select_value (els_brand example_page) = []"
    by code_simp
  from listTypes_first_seen [of example_DB None example_page "[]"]
  show "map opt_value (options (els_type (updateTypes example_DB None example_page))) = [[]]"
    by (simp add: d)
qed

text \<open>
  Claim C5. For every catalog and page, \<open>updateCodes\<close> leaves in the code dropdown, after
  the placeholder, one option per entry of \<open>listCodes\<close> for the selected brand and type:
  nothing when either is the empty string, and otherwise all the entries with that brand
  and that type, in catalog order, each as many times as the catalog holds it (entries
  with the same code are all kept); when no entry has both, there is none.
\<close>

theorem listCodes_all_in_order:
  "options (els_code (updateCodes DB pre st)) =
     \<lparr>opt_text = str ''Select Code'', opt_value = []\<rparr> #
     map code_option
       (if select_value (els_brand st) = [] \<or> select_value (els_type st) = [] then []
        else codes DB (select_value (els_brand st)) (select_value (els_type st))) \<and>
   codes DB b t = filter (\<lambda>item. brand item = b \<and> type item = t) DB \<and>
   subseq (codes DB b t) DB \<and>
   (\<forall>item. count_list (codes DB b t) item =
            (if brand item = b \<and> type item = t then count_list DB item else 0)) \<and>
   ((\<forall>item\<in>set DB. \<not> (brand item = b \<and> type item = t)) \<longrightarrow> codes DB b t = [])"
proof (intro conjI)
  show "options (els_code (updateCodes DB pre st)) =
     \<lparr>opt_text = str ''Select Code'', opt_value = []\<rparr> #
     map code_option
       (if select_value (els_brand st) = [] \<or> select_value (els_type st) = [] then []
        else codes DB (select_value (els_brand st)) (select_value (els_type st)))"
    by (rule updateCodes_options)
  show "codes DB b t = filter (\<lambda>item. brand item = b \<and> type item = t) DB"
    by (simp add: codes_def)
  show "subseq (codes DB b t) DB"
    by (simp add: codes_def)
  show "\<forall>item. count_list (codes DB b t) item =
            (if brand item = b \<and> type item = t then count_list DB item else 0)"
    by (simp add: codes_def count_list_filter)
  show "(\<forall>item\<in>set DB. \<not> (brand item = b \<and> type item = t)) \<longrightarrow> codes DB b t = []"
    by (simp add: codes_def filter_empty_conv)
qed

theorem listCodes_all_in_order_witness:
  "\<not> (\<exists>item\<in>set example_DB. brand item = str ''Bosch'' \<and> type item = str ''Dryer'') \<and>
   codes example_DB (str ''Bosch'') (str ''Dryer'') = [] \<and>
   codes example_DB (str ''Acme'') (str ''Washer'') = [e_f21, e_dup] \<and>
   map opt_value (options (els_code (updateCodes example_DB None example_acme_washer))) =
     [[], str ''F21'', str ''F21''] \<and>
   map opt_value (options (els_code (updateCodes example_DB None example_acme))) = [[]]"
proof -
  have h: "\<forall>item\<in>set example_DB. \<not> (brand item = str ''Bosch'' \<and> type item = str ''Dryer'')"
    by code_simp
  have f: "filter (\<lambda>item. brand item = str ''Acme'' \<and> type item = str ''Washer'') example_DB =
           [e_f21, e_dup]"
    by code_simp
  have a: "select_value (els_brand example_acme_washer) = str ''Acme'' \<and>
           select_value (els_type example_acme_washer) = str ''Washer'' \<and>
           select_value (els_brand example_acme) = str ''Acme'' \<and>
           select_value (els_type example_acme) = [] \<and> str ''Acme'' \<noteq> [] \<and> str ''Washer'' \<noteq> []"
    by code_simp
  have v: "opt_value (code_option e_f21) = str ''F21''" "opt_value (code_option e_dup) = str ''F21''"
    by code_simp+
  note t1 = listCodes_all_in_order [of example_DB None example_acme_washer "str ''Bosch''" "str ''Dryer''"]
  note t2 = listCodes_all_in_order [of example_DB None example_acme "str ''Acme''" "str ''Washer''"]
  from t1 h have "codes example_DB (str ''Bosch'') (str ''Dryer'') = []"
    by blast
  moreover from t2 f have c: "codes example_DB (str ''Acme'') (str ''Washer'') = [e_f21, e_dup]"
    by simp
  moreover from t1 have "map opt_value (options (els_code (updateCodes example_DB None example_acme_washer))) =
     [[], str ''F21'', str ''F21'']"
    by (simp add: a c v)
  moreover from t2 have "map opt_value (options (els_code (updateCodes example_DB None example_acme))) = [[]]"
    by (simp add: a)
  ultimately show ?thesis
    using h by blast
qed

section \<open>No operation throws on a catalog of entries\<close>

lemma map_js_entries: "map_js f (map Some DB) = Inr (map f DB)"
  by (induction DB) simp_all

lemma filter_js_entries: "filter_js P (map Some DB) = Inr (filter P DB)"
  by (induction DB) simp_all

lemma find_js_entries: "find_js P (map Some DB) = Inr (find P DB)"
  by (induction DB) simp_all

lemma map_js_null: "None \<in> set DB \<Longrightarrow> map_js f DB = Inl TypeError"
  by (induction f DB rule: map_js.induct) auto

lemma populateBrands_js_entries:
  "populateBrands_js (map Some DB) st = (None, populateBrands DB st)"
  by (simp add: populateBrands_js_def populateBrands_def brands_def map_js_entries)

lemma renderSolution_js_entries:
  "renderSolution_js (map Some DB) st = (None, renderSolution DB st)"
  by (simp add: renderSolution_js_def renderSolution_def renderSolution_entry_def find_js_entries
      split: option.split)

lemma updateCodes_js_entries:
  "updateCodes_js (map Some DB) pre st = (None, updateCodes DB pre st)"
  by (simp add: updateCodes_js_def updateCodes_def codes_def filter_js_entries
      renderSolution_js_entries Let_def)

lemma updateTypes_js_entries:
  "updateTypes_js (map Some DB) pre st = (None, updateTypes DB pre st)"
  by (simp add: updateTypes_js_def updateTypes_def availableTypes_def filter_js_entries
      updateCodes_js_entries Let_def)

lemma handleSearch_js_entries:
  "handleSearch_js toLowerCase (map Some DB) query st =
     (None, handleSearch toLowerCase DB query st)"
  by (simp add: handleSearch_js_def handleSearch_def handleSearch_match_def find_js_entries
      updateTypes_js_entries Let_def split: option.split)

lemma handleSearch_timeout_js_entries:
  "handleSearch_timeout_js (map Some DB) m st = (None, handleSearch_timeout DB m st)"
  by (simp add: handleSearch_timeout_js_def handleSearch_timeout_def renderSolution_js_entries)

lemma populateBrands_js_null:
  "None \<in> set DB \<Longrightarrow> populateBrands_js DB st = (Some TypeError, st)"
  by (simp add: populateBrands_js_def map_js_null)

text \<open>
  Claim C7. For every catalog whose elements are all entries, the empty catalog included,
  for every page and for all string arguments (a preselected value may also be \<open>null\<close>),
  none of \<open>populateBrands\<close>, \<open>updateTypes\<close>, \<open>updateCodes\<close>, \<open>renderSolution\<close>,
  \<open>handleSearch\<close> and its timer throws, and each leaves the page, and the match, that its
  definition over catalogs of entries gives. On the empty catalog the results are the
  empty ones: no brand, no type option and no code option beyond the placeholders, no
  entry for any key (the card is hidden), and no match for any query (the page is left as
  it is). On any catalog, a brand that no entry has gives no type, no code and no entry.
\<close>

theorem query_operations_never_throw:
  "populateBrands_js (map Some DB) st = (None, populateBrands DB st) \<and>
   updateTypes_js (map Some DB) pre st = (None, updateTypes DB pre st) \<and>
   updateCodes_js (map Some DB) pre st = (None, updateCodes DB pre st) \<and>
   renderSolution_js (map Some DB) st = (None, renderSolution DB st) \<and>
   handleSearch_js toLowerCase (map Some DB) query st =
     (None, handleSearch toLowerCase DB query st) \<and>
   handleSearch_timeout_js (map Some DB) m st = (None, handleSearch_timeout DB m st) \<and>
   populateBrands_js [] st = (None, st) \<and>
   fst (updateTypes_js [] pre st) = None \<and>
   options (els_type (snd (updateTypes_js [] pre st))) = [\<lparr>opt_text = str ''Select Type'', opt_value = []\<rparr>] \<and>
   fst (updateCodes_js [] pre st) = None \<and>
   options (els_code (snd (updateCodes_js [] pre st))) = [\<lparr>opt_text = str ''Select Code'', opt_value = []\<rparr>] \<and>
   renderSolution_js [] st = (None, hideSolution st) \<and>
   handleSearch_js toLowerCase [] query st = (None, st, None) \<and>
   (b \<notin> brand ` set DB \<longrightarrow>
      availableTypes DB b = [] \<and> codes DB b t = [] \<and> renderSolution_entry DB b t c = None)"
proof (intro conjI)
  show "populateBrands_js (map Some DB) st = (None, populateBrands DB st)"
    by (rule populateBrands_js_entries)
  show "updateTypes_js (map Some DB) pre st = (None, updateTypes DB pre st)"
    by (rule updateTypes_js_entries)
  show "updateCodes_js (map Some DB) pre st = (None, updateCodes DB pre st)"
    by (rule updateCodes_js_entries)
  show "renderSolution_js (map Some DB) st = (None, renderSolution DB st)"
    by (rule renderSolution_js_entries)
  show "handleSearch_js toLowerCase (map Some DB) query st =
     (None, handleSearch toLowerCase DB query st)"
    by (rule handleSearch_js_entries)
  show "handleSearch_timeout_js (map Some DB) m st = (None, handleSearch_timeout DB m st)"
    by (rule handleSearch_timeout_js_entries)
  show "populateBrands_js [] st = (None, st)"
    using populateBrands_js_entries [of "[]" st]
    by (simp add: populateBrands_def brands_def new_Set_def)
  show "fst (updateTypes_js [] pre st) = None"
    using updateTypes_js_entries [of "[]" pre st] by simp
  show "options (els_type (snd (updateTypes_js [] pre st))) = [\<lparr>opt_text = str ''Select Type'', opt_value = []\<rparr>]"
    using updateTypes_js_entries [of "[]" pre st]
    by (simp add: updateTypes_options availableTypes_def new_Set_def)
  show "fst (updateCodes_js [] pre st) = None"
    using updateCodes_js_entries [of "[]" pre st] by simp
  show "options (els_code (snd (updateCodes_js [] pre st))) = [\<lparr>opt_text = str ''Select Code'', opt_value = []\<rparr>]"
    using updateCodes_js_entries [of "[]" pre st]
    by (simp add: updateCodes_options codes_def)
  show "renderSolution_js [] st = (None, hideSolution st)"
    using renderSolution_js_entries [of "[]" st]
    by (simp add: renderSolution_def renderSolution_entry_def)
  show "handleSearch_js toLowerCase [] query st = (None, st, None)"
    using handleSearch_js_entries [of toLowerCase "[]" query st]
    by (simp add: handleSearch_def handleSearch_match_def Let_def)
  show "b \<notin> brand ` set DB \<longrightarrow>
      availableTypes DB b = [] \<and> codes DB b t = [] \<and> renderSolution_entry DB b t c = None"
  proof
    assume a: "b \<notin> brand ` set DB"
    then have "filter (\<lambda>item. brand item = b) DB = []"
      by (auto simp: filter_empty_conv)
    then have "availableTypes DB b = []"
      by (simp add: availableTypes_def new_Set_def)
    moreover from a have "codes DB b t = []"
      by (auto simp: codes_def filter_empty_conv)
    moreover from a have "renderSolution_entry DB b t c = None"
      unfolding renderSolution_entry_None_iff by blast
    ultimately show "availableTypes DB b = [] \<and> codes DB b t = [] \<and>
        renderSolution_entry DB b t c = None"
      by blast
  qed
qed

theorem query_operations_never_throw_witness:
  "str ''Zanussi'' \<notin> brand ` set example_DB \<and>
   availableTypes example_DB (str ''Zanussi'') = [] \<and>
   codes example_DB (str ''Zanussi'') (str ''Washer'') = [] \<and>
   renderSolution_entry example_DB (str ''Zanussi'') (str ''Washer'') (str ''F21'') = None \<and>
   populateBrands_js (map Some example_DB) example_page = (None, example_loaded) \<and>
   handleSearch_js toLowerCase_ascii (map Some example_DB) (str ''drain'') example_loaded =
     (None, handleSearch toLowerCase_ascii example_DB (str ''drain'') example_loaded) \<and>
   handleSearch_js toLowerCase_ascii [] (str ''drain'') example_page = (None, example_page, None) \<and>
   populateBrands_js [Some e_f21, None] example_page = (Some TypeError, example_page) \<and>
   handleSearch_js toLowerCase_ascii [None, Some e_f21] (str ''drain'') example_page =
     (Some TypeError, example_page, None)"
proof -
  have h: "str ''Zanussi'' \<notin> brand ` set example_DB"
    by code_simp
  note t = query_operations_never_throw [of example_DB example_page None toLowerCase_ascii
      "str ''drain''" e_f21 "str ''Zanussi''" "str ''Washer''" "str ''F21''"]
  note u = query_operations_never_throw [of example_DB example_loaded None toLowerCase_ascii
      "str ''drain''" e_f21 "str ''Zanussi''" "str ''Washer''" "str ''F21''"]
  have e1: "populateBrands_js [Some e_f21, None] example_page = (Some TypeError, example_page)"
    by (simp add: populateBrands_js_null)
  have q: "\<not> length (trim (toLowerCase_ascii (str ''drain''))) < 2"
    by code_simp
  have e2: "handleSearch_js toLowerCase_ascii [None, Some e_f21] (str ''drain'') example_page =
     (Some TypeError, example_page, None)"
    using q by (simp add: handleSearch_js_def Let_def)
  from h t u e1 e2 show ?thesis
    unfolding example_loaded_def by blast
qed

section \<open>Rendering\<close>

text \<open>
  Claim C10. For every catalog whose entries all have a non-empty brand, type and code,
  \<open>renderSolution\<close> called while one of the three selected values is the empty string (a
  placeholder) finds no entry and only hides the card: afterwards the card is hidden and
  displays no entry.
\<close>

theorem renderSolution_placeholder_hides:
  assumes "\<forall>item\<in>set DB. brand item \<noteq> [] \<and> type item \<noteq> [] \<and> code item \<noteq> []"
      and "select_value (els_brand st) = [] \<or> select_value (els_type st) = [] \<or>
           select_value (els_code st) = []"
  shows "renderSolution_entry DB (select_value (els_brand st)) (select_value (els_type st))
           (select_value (els_code st)) = None \<and>
         renderSolution DB st = hideSolution st \<and> card_hidden (renderSolution DB st) \<and>
         \<not> displays (renderSolution DB st) e"
proof -
  from assms have n: "renderSolution_entry DB (select_value (els_brand st))
      (select_value (els_type st)) (select_value (els_code st)) = None"
    unfolding renderSolution_entry_None_iff by metis
  then have r: "renderSolution DB st = hideSolution st"
    by (simp add: renderSolution_def)
  from n r show ?thesis
    by (simp add: hideSolution_def displays_def)
qed
theorem renderSolution_placeholder_hides_witness:
  "\<not> (\<exists>item\<in>set example_DB. brand item = [] \<or> type item = [] \<or> code item = []) \<and>
   select_value (els_code example_stale) = [] \<and>
   displays example_stale e_e18 \<and>
   card_hidden (renderSolution example_DB example_stale)"
proof -
  have h1: "\<forall>item\<in>set example_DB. brand item \<noteq> [] \<and> type item \<noteq> [] \<and> code item \<noteq> []"
    by code_simp
  have c: "select_value (els_code example_stale) = []"
    by code_simp
  then have h2: "select_value (els_brand example_stale) = [] \<or>
      select_value (els_type example_stale) = [] \<or> select_value (els_code example_stale) = []"
    by blast
  have d: "displays example_stale e_e18"
    by code_simp
  from renderSolution_placeholder_hides [OF h1 h2, of e_e18]
  have "card_hidden (renderSolution example_DB example_stale)"
    by blast
  with h1 c d show ?thesis
    by blast
qed

text \<open>
  Claim C8, as the code has it. Let a search find the entry \<open>m\<close>, whose brand and type are
  not empty, on a page whose brand dropdown offers the brand of \<open>m\<close> (as \<open>populateBrands\<close>
  leaves it). Once the timer has run, on the page as \<open>handleSearch\<close> left it, the card
  displays the first catalog entry with the brand, type and code of \<open>m\<close>, the result of
  the exact lookup on that key. When the keys of the catalog are unique that entry is \<open>m\<close>;
  with duplicate keys it is the earliest entry with the key of \<open>m\<close>, which may differ
  from \<open>m\<close>.
\<close>

theorem search_renders_first_with_key:
  assumes "snd (handleSearch toLowerCase DB query st) = Some m"
      and "brand m \<noteq> []" and "type m \<noteq> []"
      and "brand m \<in> opt_value ` set (options (els_brand st))"
  shows "\<exists>e. renderSolution_entry DB (brand m) (type m) (code m) = Some e \<and>
             (\<exists>i<length DB. DB ! i = e \<and> entry_key e = entry_key m \<and>
                (\<forall>j<i. entry_key (DB ! j) \<noteq> entry_key m)) \<and>
             displays (handleSearch_timeout DB m (fst (handleSearch toLowerCase DB query st))) e \<and>
             (distinct (map entry_key DB) \<longrightarrow> e = m)"
proof -
  note hs = handleSearch_Some [OF assms(1)]
  let ?st' = "fst (handleSearch toLowerCase DB query st)"
  let ?st'' = "?st'\<lparr>els_code := select_set_value (els_code ?st') (code m)\<rparr>"
  from search_then_timeout_selects [OF hs(1) assms(2,3,4)]
  have sel: "select_value (els_brand ?st'') = brand m" "select_value (els_type ?st'') = type m"
    "select_value (els_code ?st'') = code m"
    unfolding hs(2) by simp_all
  from hs(1) have "renderSolution_entry DB (brand m) (type m) (code m) \<noteq> None"
    unfolding renderSolution_entry_None_iff by blast
  then obtain e where e: "renderSolution_entry DB (brand m) (type m) (code m) = Some e"
    by blast
  then have idx: "\<exists>i<length DB. DB ! i = e \<and> entry_key e = entry_key m \<and>
                (\<forall>j<i. entry_key (DB ! j) \<noteq> entry_key m)"
    unfolding renderSolution_entry_Some_iff entry_key_def by auto
  from e have "displays (renderSolution DB ?st'') e"
    using renderSolution_displays [of DB ?st'' e] unfolding sel by simp
  then have d: "displays (handleSearch_timeout DB m ?st') e"
    by (simp add: handleSearch_timeout_def)
  have "distinct (map entry_key DB) \<longrightarrow> e = m"
  proof
    assume u: "distinct (map entry_key DB)"
    from idx obtain i where "i < length DB" "DB ! i = e" "entry_key e = entry_key m"
      by blast
    then have "e \<in> set DB"
      by (metis nth_mem)
    from distinct_key_eq [OF u this hs(1) \<open>entry_key e = entry_key m\<close>] show "e = m" .
  qed
  with e idx d show ?thesis
    by blast
qed

theorem search_renders_first_with_key_witness:
  "snd (handleSearch toLowerCase_ascii unique_DB (str ''Long Drain'') unique_loaded) = Some e_f21 \<and>
   brand e_f21 \<noteq> [] \<and> type e_f21 \<noteq> [] \<and>
   brand e_f21 \<in> opt_value ` set (options (els_brand unique_loaded)) \<and>
   distinct (map entry_key unique_DB) \<and>
   displays (handleSearch_timeout unique_DB e_f21
      (fst (handleSearch toLowerCase_ascii unique_DB (str ''Long Drain'') unique_loaded))) e_f21 \<and>
   snd (handleSearch toLowerCase_ascii example_DB (str ''door'') example_loaded) = Some e_dup \<and>
   e_f21 \<noteq> e_dup \<and>
   displays (handleSearch_timeout example_DB e_dup
      (fst (handleSearch toLowerCase_ascii example_DB (str ''door'') example_loaded))) e_f21"
proof -
  have h1: "snd (handleSearch toLowerCase_ascii unique_DB (str ''Long Drain'') unique_loaded) = Some e_f21"
    by code_simp
  have h2: "brand e_f21 \<noteq> []" and h3: "type e_f21 \<noteq> []"
    by code_simp+
  have h4: "brand e_f21 \<in> opt_value ` set (options (els_brand unique_loaded))"
    by code_simp
  have u: "distinct (map entry_key unique_DB)"
    by code_simp
  from search_renders_first_with_key [OF h1 h2 h3 h4] u
  have w1: "displays (handleSearch_timeout unique_DB e_f21
      (fst (handleSearch toLowerCase_ascii unique_DB (str ''Long Drain'') unique_loaded))) e_f21"
    by auto
  have g1: "snd (handleSearch toLowerCase_ascii example_DB (str ''door'') example_loaded) = Some e_dup"
    by code_simp
  have g2: "brand e_dup \<noteq> []" and g3: "type e_dup \<noteq> []"
    by code_simp+
  have g4: "brand e_dup \<in> opt_value ` set (options (els_brand example_loaded))"
    by code_simp
  have k: "renderSolution_entry example_DB (brand e_dup) (type e_dup) (code e_dup) = Some e_f21"
    by code_simp
  have d: "e_f21 \<noteq> e_dup"
    by code_simp
  from search_renders_first_with_key [OF g1 g2 g3 g4] k
  have w2: "displays (handleSearch_timeout example_DB e_dup
      (fst (handleSearch toLowerCase_ascii example_DB (str ''door'') example_loaded))) e_f21"
    by auto
  from h1 h2 h3 h4 u w1 g1 d w2 show ?thesis
    by blast
qed

text \<open>
  Claim C8 as stated, for every catalog with unique keys, fails where the matched entry
  has an empty brand: \<open>updateTypes\<close> returns at its guard on the empty selected brand, the
  code dropdown keeps only its placeholder, and the timer's \<open>renderSolution\<close> looks up the
  key of three empty strings. The catalog has one entry, so its keys are unique, and the
  exact lookup on the entry's key returns it, but the card ends hidden.
\<close>

theorem search_renders_first_with_key_counterexample:
  "snd (handleSearch toLowerCase_ascii blank_DB (str ''drain'') blank_loaded) = Some e_blank \<and>
   distinct (map entry_key blank_DB) \<and>
   brand e_blank \<in> opt_value ` set (options (els_brand blank_loaded)) \<and>
   renderSolution_entry blank_DB (brand e_blank) (type e_blank) (code e_blank) = Some e_blank \<and>
   card_hidden (handleSearch_timeout blank_DB e_blank
      (fst (handleSearch toLowerCase_ascii blank_DB (str ''drain'') blank_loaded))) \<and>
   \<not> displays (handleSearch_timeout blank_DB e_blank
      (fst (handleSearch toLowerCase_ascii blank_DB (str ''drain'') blank_loaded))) e_blank"
  by code_simp

end
